theory Spec2Isabelle
  imports Complex_Main "HOL-Library.Word" "HOL-Library.Stream"
begin

section \<open>Data model of \<^verbatim>\<open>slide_sampler.py\<close>\<close>

text \<open>
  The module samples square patches from a multi-resolution whole-slide image.
  Python floats (the downsampling factors, the mask values, the fractions compared
  with 0.1 and 0.9) are modelled as exact reals: rounding of the floating-point
  operations is not part of the model. Division by zero on NumPy scalars, which
  yields \<^verbatim>\<open>nan\<close> or \<^verbatim>\<open>inf\<close> instead of raising, is modelled
  explicitly by \<open>np_float\<close> below.
\<close>

text \<open>
  The exceptions of the methods modelled here. The source raises the builtin
  \<^verbatim>\<open>Exception\<close> with different messages; they are kept apart:
  \<open>LevelNotFound\<close> is the exception of line 63 and carries the available downsampling
  factors, which its message prints; \<open>InconsistentGeometry\<close> is the exception of
  line 104. The others are the builtin exceptions raised by the Python and NumPy
  operations the module uses. \<open>UndefinedCast\<close> is not an exception: it marks a cast of
  a float outside the range of \<^verbatim>\<open>uint32\<close>, for which NumPy defines no value, and
  the model does not follow the program beyond such a cast.
\<close>

datatype error =
    LevelNotFound "real list"
  | InconsistentGeometry
  | NameError string
  | AttributeError string
  | ValueError
  | IndexError
  | ZeroDivisionError
  | KeyError
  | TypeError
  | UndefinedCast

text \<open>
  A PIL image is observed by the module only through \<^verbatim>\<open>convert('RGB')\<close> and
  \<^verbatim>\<open>convert('L')\<close>; it is represented by these two views (rows of pixels).
\<close>

record pil_image =
  convert_RGB :: "(8 word \<times> 8 word \<times> 8 word) list list"
  convert_L :: "8 word list list"

text \<open>
  An OpenSlide handle: the level-0 dimensions, the tuple of downsampling factors
  (one per level) and the region reader
  \<^verbatim>\<open>read_region(location, level, size)\<close>.
\<close>

record multi_resolution_image =
  dimensions :: "int \<times> int"
  level_downsamples :: "real list"
  read_region :: "int \<times> int \<Rightarrow> nat \<Rightarrow> nat \<times> nat \<Rightarrow> pil_image"

section \<open>Pyramid level resolver\<close>

text \<open>Python's \<^verbatim>\<open>min\<close> of a list: \<^verbatim>\<open>ValueError\<close> on the empty list.\<close>

fun py_min :: "real list \<Rightarrow> error + real" where
  "py_min [] = Inl ValueError"
| "py_min (x # xs) = Inr (fold min xs x)"

text \<open>Python's \<^verbatim>\<open>list.index\<close>: the first position of a value, \<^verbatim>\<open>ValueError\<close> if absent.\<close>

fun py_index :: "real list \<Rightarrow> real \<Rightarrow> error + nat" where
  "py_index [] v = Inl ValueError"
| "py_index (x # xs) v =
     (if x = v then Inr 0
      else (case py_index xs v of Inl e \<Rightarrow> Inl e | Inr i \<Rightarrow> Inr (Suc i)))"

text \<open>
  \<^verbatim>\<open>Slide_Sampler.get_level_and_downsampling\<close> (lines 47 to 67). The method does
  not use \<^verbatim>\<open>self\<close>.
\<close>

definition get_level_and_downsampling ::
  "multi_resolution_image \<Rightarrow> real \<Rightarrow> real \<Rightarrow> error + (nat \<times> real)" where
  "get_level_and_downsampling multi_resolution_image desired_downsampling threshold =
     (let diffs = map (\<lambda>i. \<bar>desired_downsampling - level_downsamples multi_resolution_image ! i\<bar>)
                      [0..<length (level_downsamples multi_resolution_image)]
      in case py_min diffs of
           Inl e \<Rightarrow> Inl e
         | Inr minimum \<Rightarrow>
             if minimum > threshold
             then Inl (LevelNotFound (level_downsamples multi_resolution_image))
             else (case py_index diffs minimum of
                     Inl e \<Rightarrow> Inl e
                   | Inr level \<Rightarrow> Inr (level, level_downsamples multi_resolution_image ! level)))"

section \<open>NumPy scalars\<close>

text \<open>
  The result of a true division of NumPy scalars. A zero divisor raises nothing
  (NumPy only warns): the quotient is \<^verbatim>\<open>inf\<close>, \<^verbatim>\<open>-inf\<close> or \<^verbatim>\<open>nan\<close>.
\<close>

datatype np_float = Finite real | PosInf | NegInf | NaN

definition np_true_divide :: "real \<Rightarrow> real \<Rightarrow> np_float" where
  "np_true_divide a b =
     (if b \<noteq> 0 then Finite (a / b)
      else if a > 0 then PosInf
      else if a < 0 then NegInf
      else NaN)"

text \<open>Comparison of such a quotient with a finite constant; \<^verbatim>\<open>nan\<close> compares false.\<close>

fun np_greater :: "np_float \<Rightarrow> real \<Rightarrow> bool" where
  "np_greater (Finite x) c = (x > c)"
| "np_greater PosInf c = True"
| "np_greater NegInf c = False"
| "np_greater NaN c = False"

fun np_less :: "np_float \<Rightarrow> real \<Rightarrow> bool" where
  "np_less (Finite x) c = (x < c)"
| "np_less PosInf c = False"
| "np_less NegInf c = True"
| "np_less NaN c = False"

text \<open>\<^verbatim>\<open>np.sum\<close> of a two-dimensional array, given as its rows.\<close>

definition np_sum :: "real list list \<Rightarrow> real" where
  "np_sum x = sum_list (concat x)"

text \<open>
  \<^verbatim>\<open>x.max()\<close> of a two-dimensional array: \<^verbatim>\<open>ValueError\<close> on an array
  without elements.
\<close>

definition np_max :: "real list list \<Rightarrow> error + real" where
  "np_max x = (case concat x of [] \<Rightarrow> Inl ValueError | v # vs \<Rightarrow> Inr (fold max vs v))"

text \<open>
  The slice \<^verbatim>\<open>a[i:i + s, j:j + s]\<close> with \<^verbatim>\<open>uint32\<close> scalars: the sums wrap
  modulo \<open>2 ^ 32\<close>, and a slice is clipped to the array.
\<close>

definition py_slice :: "'a list \<Rightarrow> nat \<Rightarrow> nat \<Rightarrow> 'a list" where
  "py_slice xs lo hi = take (hi - lo) (drop lo xs)"

definition np_slice2 :: "real list list \<Rightarrow> 32 word \<Rightarrow> 32 word \<Rightarrow> 32 word \<Rightarrow> real list list" where
  "np_slice2 a i j s =
     map (\<lambda>row. py_slice row (unat j) (unat (j + s))) (py_slice a (unat i) (unat (i + s)))"

text \<open>
  \<^verbatim>\<open>np.random.choice(a)\<close> for an integer \<open>a\<close>: \<^verbatim>\<open>ValueError\<close> unless
  \<open>a\<close> is positive, otherwise an element of \<^verbatim>\<open>range(a)\<close>. The generator is
  a stream of naturals; a draw consumes the next one and reduces it into the range.
\<close>

definition np_random_choice :: "int \<Rightarrow> nat stream \<Rightarrow> error + (int \<times> nat stream)" where
  "np_random_choice a rng =
     (if a \<le> 0 then Inl ValueError else Inr (int (shd rng) mod a, stl rng))"

text \<open>Python's \<^verbatim>\<open>int\<close> of a float truncates towards zero.\<close>

definition py_int :: "real \<Rightarrow> int" where
  "py_int x = (if x \<ge> 0 then \<lfloor>x\<rfloor> else \<lceil>x\<rceil>)"

section \<open>The sampling session\<close>

text \<open>
  The attributes of a \<^verbatim>\<open>Slide_Sampler\<close> object. Those assigned by
  \<^verbatim>\<open>__init__\<close> are always present; the others are \<open>None\<close> until a method
  assigns them, and reading one before raises \<^verbatim>\<open>AttributeError\<close>. The attribute
  \<^verbatim>\<open>size\<close> is the field \<open>patch_size\<close>; \<^verbatim>\<open>fileID\<close>, used for file
  names only, is left out.
\<close>

record slide_sampler =
  wsi_file :: string
  wsi :: multi_resolution_image
  desired_downsampling :: real
  patch_size :: nat
  level :: nat
  downsampling :: real
  width_available :: int
  height_available :: int
  background_mask_level :: "nat option"
  background_mask_downsampling :: "real option"
  background_mask :: "real list list option"
  size_at_background_level :: "32 word option"
  annotation_mask_file :: "string option"
  annotation_mask :: "multi_resolution_image option"
  annotation_mask_level :: "nat option"
  annotation_mask_downsampling :: "real option"

text \<open>
  \<^verbatim>\<open>Slide_Sampler.__init__\<close> (lines 33 to 45); the argument \<open>opened\<close> is the
  handle that \<^verbatim>\<open>openslide.OpenSlide(wsi_file)\<close> returns.
\<close>

definition Slide_Sampler_init ::
  "string \<Rightarrow> multi_resolution_image \<Rightarrow> real \<Rightarrow> nat \<Rightarrow> error + slide_sampler" where
  "Slide_Sampler_init file opened desired size_arg =
     (case get_level_and_downsampling opened desired (1 / 10) of
        Inl e \<Rightarrow> Inl e
      | Inr (l, ds) \<Rightarrow>
          Inr \<lparr> wsi_file = file, wsi = opened, desired_downsampling = desired,
                patch_size = size_arg, level = l, downsampling = ds,
                width_available = py_int (of_int (fst (dimensions opened)) - ds * of_nat size_arg),
                height_available = py_int (of_int (snd (dimensions opened)) - ds * of_nat size_arg),
                background_mask_level = None, background_mask_downsampling = None,
                background_mask = None, size_at_background_level = None,
                annotation_mask_file = None, annotation_mask = None,
                annotation_mask_level = None, annotation_mask_downsampling = None \<rparr>)"

section \<open>Coordinate converter\<close>

text \<open>
  The value \<^verbatim>\<open>level_converter\<close> returns: a \<^verbatim>\<open>uint32\<close> with \<^verbatim>\<open>round\<close>
  set (the flag \<open>rounded\<close> below), a float otherwise.
\<close>

datatype number = UInt32 "32 word" | Float64 real

text \<open>
  \<^verbatim>\<open>Slide_Sampler.level_converter\<close> (lines 203 to 211). Indexing the tuple of
  factors out of range raises \<^verbatim>\<open>IndexError\<close>; a zero divisor raises
  \<^verbatim>\<open>ZeroDivisionError\<close> for a Python number \<open>x\<close> (for a NumPy scalar the quotient
  is infinite or \<^verbatim>\<open>nan\<close>, and the cast below has no defined value either).
  \<^verbatim>\<open>astype(np.uint32)\<close> is defined for a floored value in the range of
  \<^verbatim>\<open>uint32\<close> only.
\<close>

definition level_converter ::
  "slide_sampler \<Rightarrow> int \<Rightarrow> nat \<Rightarrow> nat \<Rightarrow> bool \<Rightarrow> error + number" where
  "level_converter self x lvl_in lvl_out rounded =
     (let ds = level_downsamples (wsi self) in
      if length ds \<le> lvl_in \<or> length ds \<le> lvl_out then Inl IndexError
      else if ds ! lvl_out = 0 then Inl ZeroDivisionError
      else
        let q = of_int x * ds ! lvl_in / ds ! lvl_out in
        if rounded
        then (if 0 \<le> \<lfloor>q\<rfloor> \<and> \<lfloor>q\<rfloor> < 2 ^ 32
              then Inr (UInt32 (word_of_int \<lfloor>q\<rfloor>))
              else Inl UndefinedCast)
        else Inr (Float64 q))"

section \<open>Background mask and annotation mask\<close>

text \<open>
  The method \<^verbatim>\<open>Slide_Sampler.generate_background_mask\<close> (lines 69 to 90), not the
  module-level function of the same name. A method returns the exception it raises,
  if any, and the object as the call leaves it. After the two assignments of line 83
  the method evaluates the name \<^verbatim>\<open>mask\<close>, which is neither a local variable nor a
  global of the module: \<^verbatim>\<open>NameError\<close>. The rest of the body is never reached.
\<close>

definition Slide_Sampler_generate_background_mask ::
  "slide_sampler \<Rightarrow> real \<Rightarrow> real \<Rightarrow> nat \<Rightarrow> error option \<times> slide_sampler" where
  "Slide_Sampler_generate_background_mask self desired threshold disk_radius =
     (case get_level_and_downsampling (wsi self) desired threshold of
        Inl e \<Rightarrow> (Some e, self)
      | Inr (l, ds) \<Rightarrow>
          (Some (NameError ''mask''),
           self \<lparr> background_mask_level := Some l, background_mask_downsampling := Some ds \<rparr>))"

text \<open>
  \<^verbatim>\<open>Slide_Sampler.pickle_load_background_mask\<close> (lines 235 to 243); the argument is
  the list of four values read from the file.
\<close>

definition pickle_load_background_mask ::
  "slide_sampler \<Rightarrow> real list list \<times> nat \<times> real \<times> 32 word \<Rightarrow> slide_sampler" where
  "pickle_load_background_mask self pickled =
     (case pickled of (bm, l, ds, s) \<Rightarrow>
        self \<lparr> background_mask_level := Some l, background_mask_downsampling := Some ds,
               background_mask := Some bm, size_at_background_level := Some s \<rparr>)"

text \<open>
  \<^verbatim>\<open>Slide_Sampler.add_annotation_mask\<close> (lines 92 to 105); \<open>opened\<close> is the handle
  that \<^verbatim>\<open>openslide.OpenSlide(annotation_mask_file)\<close> returns.
\<close>

definition add_annotation_mask ::
  "slide_sampler \<Rightarrow> string \<Rightarrow> multi_resolution_image \<Rightarrow> error option \<times> slide_sampler" where
  "add_annotation_mask self file opened =
     (let self1 = self \<lparr> annotation_mask_file := Some file, annotation_mask := Some opened \<rparr>
      in case get_level_and_downsampling opened (desired_downsampling self1) (1 / 10) of
           Inl e \<Rightarrow> (Some e, self1)
         | Inr (l, ds) \<Rightarrow>
             let self2 = self1 \<lparr> annotation_mask_level := Some l,
                                 annotation_mask_downsampling := Some ds \<rparr>;
                 eps = 1 / 1000
             in if \<bar>ds - downsampling self2\<bar> > eps
                then (Some InconsistentGeometry, self2)
                else (None, self2))"

section \<open>Rejection sampler\<close>

text \<open>A patch record is a Python dictionary with string keys, in insertion order.\<close>

datatype pyval = PyInt int | PyStr string

type_synonym info = "(string \<times> pyval) list"

fun dict_set :: "info \<Rightarrow> string \<Rightarrow> pyval \<Rightarrow> info" where
  "dict_set [] k v = [(k, v)]"
| "dict_set ((k', v') # d) k v = (if k' = k then (k, v) # d else (k', v') # dict_set d k v)"

definition dict_get :: "info \<Rightarrow> string \<Rightarrow> error + pyval" where
  "dict_get d k = (case map_of d k of None \<Rightarrow> Inl KeyError | Some v \<Rightarrow> Inr v)"

text \<open>
  The coverage test of line 163 for a draw \<open>(w, h)\<close>: the sum of the background mask
  over the footprint of the patch, divided by the square of the footprint size. With
  the promotion rules of the NumPy releases this module runs on, the power of a
  \<^verbatim>\<open>uint32\<close> scalar and a Python \<^verbatim>\<open>int\<close> is an \<^verbatim>\<open>int64\<close>. A float index
  in the slice would raise \<^verbatim>\<open>TypeError\<close>.
\<close>

definition background_coverage :: "slide_sampler \<Rightarrow> int \<Rightarrow> int \<Rightarrow> error + np_float" where
  "background_coverage self w h =
     (case background_mask_level self of
        None \<Rightarrow> Inl (AttributeError ''background_mask_level'')
      | Some bl \<Rightarrow>
     (case level_converter self h 0 bl True of
        Inl e \<Rightarrow> Inl e
      | Inr (Float64 q) \<Rightarrow> Inl TypeError
      | Inr (UInt32 i) \<Rightarrow>
     (case level_converter self w 0 bl True of
        Inl e \<Rightarrow> Inl e
      | Inr (Float64 q) \<Rightarrow> Inl TypeError
      | Inr (UInt32 j) \<Rightarrow>
     (case background_mask self of
        None \<Rightarrow> Inl (AttributeError ''background_mask'')
      | Some bm \<Rightarrow>
     (case size_at_background_level self of
        None \<Rightarrow> Inl (AttributeError ''size_at_background_level'')
      | Some s \<Rightarrow>
          Inr (np_true_divide (np_sum (np_slice2 bm i j s))
                 (of_int (sint ((ucast s :: 64 word) ^ 2)))))))))"

text \<open>The dictionary of line 164.\<close>

definition patch_info :: "slide_sampler \<Rightarrow> int \<Rightarrow> int \<Rightarrow> info" where
  "patch_info self w h =
     [(''w'', PyInt w), (''h'', PyInt h), (''parent'', PyStr (wsi_file self)),
      (''level'', PyInt (int (level self))), (''size'', PyInt (int (patch_size self)))]"

text \<open>
  One pass through the body of the loop of \<^verbatim>\<open>get_patch\<close> (lines 156 to 163): the
  two draws, the patch read from the slide, and the coverage of the draw.
\<close>

type_synonym rgb_block = "(8 word \<times> 8 word \<times> 8 word) list list"

definition get_patch_draw ::
  "slide_sampler \<Rightarrow> nat stream \<Rightarrow> error + (int \<times> int \<times> rgb_block \<times> np_float \<times> nat stream)" where
  "get_patch_draw self rng =
     (case np_random_choice (width_available self) rng of
        Inl e \<Rightarrow> Inl e
      | Inr (w, rng1) \<Rightarrow>
     (case np_random_choice (height_available self) rng1 of
        Inl e \<Rightarrow> Inl e
      | Inr (h, rng2) \<Rightarrow>
          let patch = convert_RGB (read_region (wsi self) (w, h) (level self)
                                     (patch_size self, patch_size self))
          in (case background_coverage self w h of
                Inl e \<Rightarrow> Inl e
              | Inr c \<Rightarrow> Inr (w, h, patch, c, rng2))))"

text \<open>
  \<^verbatim>\<open>Slide_Sampler.get_patch\<close> (lines 148 to 165). The loop has no bound: a call
  that draws rejected origins for ever has the value \<open>None\<close>.
\<close>

partial_function (option) get_patch ::
  "slide_sampler \<Rightarrow> nat stream \<Rightarrow> (error + (rgb_block \<times> info \<times> nat stream)) option" where
  "get_patch self rng =
     (case get_patch_draw self rng of
        Inl e \<Rightarrow> Some (Inl e)
      | Inr (w, h, patch, c, rng') \<Rightarrow>
          if np_greater c (9 / 10)
          then Some (Inr (patch, patch_info self w h, rng'))
          else get_patch self rng')"

section \<open>Classed rejection sampler\<close>

text \<open>\<^verbatim>\<open>Slide_Sampler.force_patch_float01\<close> (lines 213 to 221).\<close>

definition force_patch_float01 :: "real list list \<Rightarrow> error + real list list" where
  "force_patch_float01 x =
     (case np_max x of
        Inl e \<Rightarrow> Inl e
      | Inr m \<Rightarrow> if m > 1 then Inr (map (map (\<lambda>v. v / 255)) x) else Inr x)"

text \<open>
  The fraction both tests of \<^verbatim>\<open>get_classed_patch\<close> compare (lines 178 to 182): the
  annotation mask is read at the origin \<open>(w, h)\<close> as an 8-bit grey image, normalised,
  summed and divided by the area of the patch.
\<close>

definition annotation_fraction :: "slide_sampler \<Rightarrow> int \<Rightarrow> int \<Rightarrow> error + np_float" where
  "annotation_fraction self w h =
     (case annotation_mask self of
        None \<Rightarrow> Inl (AttributeError ''annotation_mask'')
      | Some am \<Rightarrow>
     (case annotation_mask_level self of
        None \<Rightarrow> Inl (AttributeError ''annotation_mask_level'')
      | Some al \<Rightarrow>
          let annotation_mask_patch = convert_L (read_region am (w, h) al (patch_size self, patch_size self))
          in (case force_patch_float01 (map (map (\<lambda>b. real (unat b))) annotation_mask_patch) of
                Inl e \<Rightarrow> Inl e
              | Inr annotation_mask_patch_numpy \<Rightarrow>
                  let area = (patch_size self) ^ 2
                  in Inr (np_true_divide (np_sum annotation_mask_patch_numpy) (real area)))))"

text \<open>
  The body of the loop of \<^verbatim>\<open>get_classed_patch\<close> after the call of
  \<^verbatim>\<open>get_patch\<close> (lines 177 to 187): the class is written into the record, and the
  flag tells whether the loop ends. The two tests are consecutive statements, not
  alternatives.
\<close>

definition classify :: "slide_sampler \<Rightarrow> int option \<Rightarrow> info \<Rightarrow> error + (info \<times> bool)" where
  "classify self patch_class info0 =
     (case dict_get info0 ''w'' of
        Inl e \<Rightarrow> Inl e
      | Inr (PyStr u) \<Rightarrow> Inl TypeError
      | Inr (PyInt w) \<Rightarrow>
     (case dict_get info0 ''h'' of
        Inl e \<Rightarrow> Inl e
      | Inr (PyStr u) \<Rightarrow> Inl TypeError
      | Inr (PyInt h) \<Rightarrow>
     (case annotation_fraction self w h of
        Inl e \<Rightarrow> Inl e
      | Inr f \<Rightarrow>
          let (info1, done1) =
                (if np_less f (1 / 10) \<and> (patch_class = None \<or> patch_class = Some 0)
                 then (dict_set info0 ''class'' (PyInt 0), True)
                 else (info0, False));
              (info2, done2) =
                (if np_greater f (9 / 10) \<and> (patch_class = None \<or> patch_class = Some 1)
                 then (dict_set info1 ''class'' (PyInt 1), True)
                 else (info1, done1))
          in Inr (info2, done2))))"

text \<open>
  \<^verbatim>\<open>Slide_Sampler.get_classed_patch\<close> (lines 167 to 189); \<open>patch_class\<close> is
  \<open>None\<close> or an integer, and \<^verbatim>\<open>verbose\<close>, which only prints, is left out. Again
  the loop has no bound.
\<close>

partial_function (option) get_classed_patch ::
  "slide_sampler \<Rightarrow> int option \<Rightarrow> nat stream
     \<Rightarrow> (error + (rgb_block \<times> info \<times> nat stream)) option" where
  "get_classed_patch self patch_class rng =
     (case get_patch self rng of
        None \<Rightarrow> None
      | Some (Inl e) \<Rightarrow> Some (Inl e)
      | Some (Inr (patch, info0, rng')) \<Rightarrow>
          (case classify self patch_class info0 of
             Inl e \<Rightarrow> Some (Inl e)
           | Inr (info1, done) \<Rightarrow>
               if done then Some (Inr (patch, info1, rng'))
               else get_classed_patch self patch_class rng'))"

section \<open>Dataset accumulator\<close>

text \<open>
  A \<^verbatim>\<open>pandas.DataFrame\<close>: its column labels and its rows. Appending a dictionary
  adds one row; a key that is not yet a column becomes a new column (no record of
  this module has such a key, see \<open>frame_append_known_keys\<close> below).
\<close>

record frame =
  columns :: "string list"
  rows :: "info list"

definition frame_append :: "frame \<Rightarrow> info \<Rightarrow> frame" where
  "frame_append fr d =
     \<lparr> columns = columns fr @ filter (\<lambda>k. k \<notin> set (columns fr)) (remdups (map fst d)),
       rows = rows fr @ [d] \<rparr>"

text \<open>The loop of lines 251 to 253, over \<^verbatim>\<open>range(number_patches)\<close>.\<close>

fun patchframe_loop ::
  "slide_sampler \<Rightarrow> nat \<Rightarrow> frame \<Rightarrow> nat stream \<Rightarrow> (error + (frame \<times> nat stream)) option" where
  "patchframe_loop self 0 fr rng = Some (Inr (fr, rng))"
| "patchframe_loop self (Suc n) fr rng =
     (case get_classed_patch self None rng of
        None \<Rightarrow> None
      | Some (Inl e) \<Rightarrow> Some (Inl e)
      | Some (Inr (patch, info1, rng')) \<Rightarrow> patchframe_loop self n (frame_append fr info1) rng')"

text \<open>
  \<^verbatim>\<open>Slide_Sampler.get_basic_patchframe\<close> (lines 245 to 258) with the default
  \<^verbatim>\<open>save=0\<close>; saving writes a file and does not change the frame returned.
\<close>

definition get_basic_patchframe ::
  "slide_sampler \<Rightarrow> nat \<Rightarrow> nat stream \<Rightarrow> (error + (frame \<times> nat stream)) option" where
  "get_basic_patchframe self number_patches rng =
     patchframe_loop self number_patches
       \<lparr> columns = [''w'', ''h'', ''class'', ''parent'', ''level'', ''size''], rows = [] \<rparr> rng"

section \<open>Runs of the classed sampler\<close>

text \<open>
  \<open>sampler_calls self rng n infos rng'\<close>: starting with the generator \<open>rng\<close>, \<open>n\<close>
  consecutive calls \<^verbatim>\<open>self.get_classed_patch()\<close>, each without a class constraint
  and each on the generator the previous one left, all return; \<open>infos\<close> are the
  records they return, in the order of the calls, and \<open>rng'\<close> is the generator after
  the last one.
\<close>

inductive sampler_calls ::
  "slide_sampler \<Rightarrow> nat stream \<Rightarrow> nat \<Rightarrow> info list \<Rightarrow> nat stream \<Rightarrow> bool" where
  none: "sampler_calls self rng 0 [] rng"
| call: "get_classed_patch self None rng = Some (Inr (patch, info1, rng1))
         \<Longrightarrow> sampler_calls self rng1 n infos rng'
         \<Longrightarrow> sampler_calls self rng (Suc n) (info1 # infos) rng'"

code_pred sampler_calls .

section \<open>Example images and sessions\<close>

text \<open>
  A reader that returns a white block of the requested size, whose grey view is zero
  everywhere: as an annotation mask it marks nothing.
\<close>

definition blank_region :: "int \<times> int \<Rightarrow> nat \<Rightarrow> nat \<times> nat \<Rightarrow> pil_image" where
  "blank_region location lvl sz =
     \<lparr> convert_RGB = replicate (snd sz) (replicate (fst sz) (255, 255, 255)),
       convert_L = replicate (snd sz) (replicate (fst sz) 0) \<rparr>"

text \<open>The pyramid of the example of the specification, and a session on it.\<close>

definition pyramid4 :: multi_resolution_image where
  "pyramid4 = \<lparr> dimensions = (4096, 4096), level_downsamples = [1, 4, 16, 32],
                read_region = blank_region \<rparr>"

definition sampler4 :: slide_sampler where
  "sampler4 = \<lparr> wsi_file = ''slide.svs'', wsi = pyramid4, desired_downsampling = 1,
       patch_size = 256, level = 0, downsampling = 1,
       width_available = 3840, height_available = 3840,
       background_mask_level = None, background_mask_downsampling = None,
       background_mask = None, size_at_background_level = None,
       annotation_mask_file = None, annotation_mask = None,
       annotation_mask_level = None, annotation_mask_downsampling = None \<rparr>"

text \<open>
  A small slide of 8 by 8 pixels with two levels, and an annotation mask of the same
  geometry whose regions are foreground (255) when they start in row 3 or below and
  background (0) otherwise.
\<close>

definition slide8 :: multi_resolution_image where
  "slide8 = \<lparr> dimensions = (8, 8), level_downsamples = [1, 2], read_region = blank_region \<rparr>"

definition lower_region :: "int \<times> int \<Rightarrow> nat \<Rightarrow> nat \<times> nat \<Rightarrow> pil_image" where
  "lower_region location lvl sz =
     (let v = (if 3 \<le> snd location then 255 else 0)
      in \<lparr> convert_RGB = replicate (snd sz) (replicate (fst sz) (v, v, v)),
            convert_L = replicate (snd sz) (replicate (fst sz) v) \<rparr>)"

definition annotation8 :: multi_resolution_image where
  "annotation8 = \<lparr> dimensions = (8, 8), level_downsamples = [1, 2],
                   read_region = lower_region \<rparr>"

text \<open>
  The session \<^verbatim>\<open>Slide_Sampler('slide8.svs', 1, 2)\<close>; then the same session with a
  background mask at level 1 whose right half is tissue, and with the annotation mask
  attached.
\<close>

definition sampler8_fresh :: slide_sampler where
  "sampler8_fresh = \<lparr> wsi_file = ''slide8.svs'', wsi = slide8, desired_downsampling = 1,
       patch_size = 2, level = 0, downsampling = 1,
       width_available = 6, height_available = 6,
       background_mask_level = None, background_mask_downsampling = None,
       background_mask = None, size_at_background_level = None,
       annotation_mask_file = None, annotation_mask = None,
       annotation_mask_level = None, annotation_mask_downsampling = None \<rparr>"

definition half_tissue :: "real list list" where
  "half_tissue = [[0, 0, 1, 1], [0, 0, 1, 1], [0, 0, 1, 1], [0, 0, 1, 1]]"

definition sampler8 :: slide_sampler where
  "sampler8 = sampler8_fresh \<lparr>
       background_mask_level := Some 1, background_mask_downsampling := Some 2,
       background_mask := Some half_tissue, size_at_background_level := Some 1,
       annotation_mask_file := Some ''annotation.tif'', annotation_mask := Some annotation8,
       annotation_mask_level := Some 0, annotation_mask_downsampling := Some 1 \<rparr>"

text \<open>
  An annotation mask whose finest level has the factor 1.05: within the tolerance 0.1
  of a desired downsampling of 1, but not equal to the factor 1 of the slide.
\<close>

definition coarse8 :: multi_resolution_image where
  "coarse8 = \<lparr> dimensions = (8, 8), level_downsamples = [21 / 20, 2],
                read_region = lower_region \<rparr>"

section \<open>Properties of the level resolver\<close>

lemma py_min_Min: "xs \<noteq> [] \<Longrightarrow> py_min xs = Inr (Min (set xs))"
  by (cases xs) (simp_all add: Min.set_eq_fold del: set_simps)

lemma py_index_first:
  "v \<in> set xs \<Longrightarrow>
   \<exists>i. py_index xs v = Inr i \<and> i < length xs \<and> xs ! i = v \<and> (\<forall>j<i. xs ! j \<noteq> v)"
proof (induction xs)
  case Nil
  then show ?case by simp
next
  case (Cons x xs)
  show ?case
  proof (cases "x = v")
    case True
    then show ?thesis by simp
  next
    case False
    with Cons.prems have "v \<in> set xs" by simp
    from Cons.IH [OF this] obtain i where
      i: "py_index xs v = Inr i" "i < length xs" "xs ! i = v" "\<forall>j<i. xs ! j \<noteq> v"
      by blast
    have "\<forall>j<Suc i. (x # xs) ! j \<noteq> v"
    proof (intro allI impI)
      fix j assume "j < Suc i"
      then show "(x # xs) ! j \<noteq> v"
        using False i(4) by (cases j) simp_all
    qed
    with False i show ?thesis by simp
  qed
qed

lemma diffs_map:
  "map (\<lambda>i. \<bar>d - F ! i\<bar>) [0..<length F] = map (\<lambda>f. \<bar>d - f\<bar>) (F :: real list)"
  by (rule nth_equalityI) simp_all

text \<open>
  C1. For a non-empty factor list \<open>F\<close> (an OpenSlide image has at least level 0),
  the resolver raises \<open>LevelNotFound\<close> exactly when the least absolute difference
  \<open>\<bar>d - F ! i\<bar>\<close> exceeds the tolerance \<open>t\<close>; otherwise it returns an index
  \<open>i\<close> of \<open>F\<close> at which \<open>\<bar>d - F ! i\<bar>\<close> is minimal (the first such index), paired
  with the factor \<open>F ! i\<close> itself.
\<close>

theorem get_level_and_downsampling_argmin:
  fixes d t :: real
  assumes "level_downsamples img \<noteq> []"
  shows "(get_level_and_downsampling img d t = Inl (LevelNotFound (level_downsamples img))
            \<longleftrightarrow> Min ((\<lambda>f. \<bar>d - f\<bar>) ` set (level_downsamples img)) > t)
       \<and> (Min ((\<lambda>f. \<bar>d - f\<bar>) ` set (level_downsamples img)) > t
          \<or> (\<exists>i<length (level_downsamples img).
                get_level_and_downsampling img d t = Inr (i, level_downsamples img ! i)
              \<and> \<bar>d - level_downsamples img ! i\<bar>
                    = Min ((\<lambda>f. \<bar>d - f\<bar>) ` set (level_downsamples img))
              \<and> (\<forall>j<length (level_downsamples img).
                    \<bar>d - level_downsamples img ! i\<bar> \<le> \<bar>d - level_downsamples img ! j\<bar>)
              \<and> (\<forall>j<i. \<bar>d - level_downsamples img ! j\<bar>
                    \<noteq> Min ((\<lambda>f. \<bar>d - f\<bar>) ` set (level_downsamples img)))))"
proof -
  define F where "F = level_downsamples img"
  define m where "m = Min ((\<lambda>f. \<bar>d - f\<bar>) ` set F)"
  let ?diffs = "map (\<lambda>f. \<bar>d - f\<bar>) F"
  have ne: "?diffs \<noteq> []" using assms(1) by (simp add: F_def)
  have m: "Min (set ?diffs) = m" by (simp add: m_def)
  have pm: "py_min ?diffs = Inr m" using py_min_Min [OF ne] m by simp
  have "m \<in> set ?diffs" using Min_in [of "set ?diffs"] ne m by auto
  from py_index_first [OF this] obtain i where
    i: "py_index ?diffs m = Inr i" "i < length ?diffs" "?diffs ! i = m" "\<forall>j<i. ?diffs ! j \<noteq> m"
    by blast
  have il: "i < length F" using i(2) by simp
  have di: "\<bar>d - F ! i\<bar> = m" using i(3) il by simp
  have least: "\<forall>j<length F. \<bar>d - F ! i\<bar> \<le> \<bar>d - F ! j\<bar>"
  proof (intro allI impI)
    fix j assume j: "j < length F"
    then have "\<bar>d - F ! j\<bar> \<in> set ?diffs" by simp
    then have "Min (set ?diffs) \<le> \<bar>d - F ! j\<bar>" by (intro Min_le) simp_all
    then show "\<bar>d - F ! i\<bar> \<le> \<bar>d - F ! j\<bar>" using di m by simp
  qed
  have first: "\<forall>j<i. \<bar>d - F ! j\<bar> \<noteq> m"
  proof (intro allI impI)
    fix j assume "j < i"
    with i(4) il show "\<bar>d - F ! j\<bar> \<noteq> m" by auto
  qed
  have res: "get_level_and_downsampling img d t =
               (if m > t then Inl (LevelNotFound F) else Inr (i, F ! i))"
    using pm i(1) by (simp add: get_level_and_downsampling_def diffs_map F_def [symmetric])
  show ?thesis
    unfolding F_def [symmetric] m_def [symmetric]
    using res il di least first by auto
qed

theorem get_level_and_downsampling_argmin_witness:
  "level_downsamples pyramid4 \<noteq> []
   \<and> get_level_and_downsampling pyramid4 (641 / 20) (1 / 10) = Inr (3, 32)
   \<and> get_level_and_downsampling pyramid4 30 (1 / 10) = Inl (LevelNotFound [1, 4, 16, 32])"
  using get_level_and_downsampling_argmin [of pyramid4 "641 / 20" "1 / 10"]
        get_level_and_downsampling_argmin [of pyramid4 30 "1 / 10"]
  by (simp add: pyramid4_def get_level_and_downsampling_def)

lemma Slide_Sampler_init_sampler4:
  "Slide_Sampler_init ''slide.svs'' pyramid4 1 256 = Inr sampler4"
  by (simp add: Slide_Sampler_init_def get_level_and_downsampling_def pyramid4_def
        sampler4_def py_int_def)

section \<open>Properties of the coordinate converter\<close>










section \<open>Properties of the rejection sampler\<close>

lemma np_greater_divide:
  "np_greater (np_true_divide a b) c \<longleftrightarrow> (b \<noteq> 0 \<and> a / b > c) \<or> (b = 0 \<and> a > 0)"
  by (simp add: np_true_divide_def)

lemma np_less_divide:
  "np_less (np_true_divide a b) c \<longleftrightarrow> (b \<noteq> 0 \<and> a / b < c) \<or> (b = 0 \<and> a < 0)"
  by (simp add: np_true_divide_def)

lemma np_sum_slice2_zero: "np_sum (np_slice2 bm i j 0) = 0"
  by (simp add: np_sum_def np_slice2_def py_slice_def)

lemma unat_ucast64: "unat (ucast (s :: 32 word) :: 64 word) = unat s"
proof -
  have "unat s < 2 ^ 32" using unsigned_less [of s] by simp
  then have "unat s < 2 ^ 64" by (rule less_trans) simp
  then show ?thesis by (simp add: unsigned_ucast_eq take_bit_nat_eq_self)
qed

lemma int64_square_zero:
  "sint ((ucast (s :: 32 word) :: 64 word) ^ 2) = 0 \<longleftrightarrow> s = 0"
proof -
  have "unat s < 2 ^ 32" using unsigned_less [of s] by simp
  then have "unat s * unat s < 2 ^ 32 * 2 ^ 32"
    by (intro mult_strict_mono) simp_all
  then have lt: "unat (ucast s :: 64 word) * unat (ucast s :: 64 word) < 2 ^ LENGTH(64)"
    by (simp add: unat_ucast64)
  have "unat ((ucast s :: 64 word) * ucast s) = unat (ucast s :: 64 word) * unat (ucast s :: 64 word)"
    using lt by (simp only: unat_mult_lem [symmetric])
  then have "unat ((ucast s :: 64 word) ^ 2) = unat s * unat s"
    by (simp add: power2_eq_square unat_ucast64)
  then have "(ucast s :: 64 word) ^ 2 = 0 \<longleftrightarrow> s = 0"
    by (metis mult_eq_0_iff unat_eq_0)
  then show ?thesis by (simp add: signed_eq_0_iff)
qed

lemma background_coverage_Inr:
  assumes "background_coverage self w h = Inr c"
  shows "\<exists>bl i j bm s.
           background_mask_level self = Some bl
         \<and> level_converter self h 0 bl True = Inr (UInt32 i)
         \<and> level_converter self w 0 bl True = Inr (UInt32 j)
         \<and> background_mask self = Some bm
         \<and> size_at_background_level self = Some s
         \<and> c = np_true_divide (np_sum (np_slice2 bm i j s))
                  (of_int (sint ((ucast s :: 64 word) ^ 2)))"
  using assms
  by (auto simp: background_coverage_def split: option.splits sum.splits number.splits)

lemma get_patch_draw_Inr:
  assumes "get_patch_draw self rng = Inr (w, h, patch, c, rng')"
  shows "0 \<le> w \<and> w < width_available self \<and> 0 \<le> h \<and> h < height_available self
       \<and> w = int (shd rng) mod width_available self
       \<and> h = int (shd (stl rng)) mod height_available self
       \<and> rng' = stl (stl rng)
       \<and> patch = convert_RGB (read_region (wsi self) (w, h) (level self)
                                (patch_size self, patch_size self))
       \<and> background_coverage self w h = Inr c"
  using assms
  by (auto simp: get_patch_draw_def np_random_choice_def Let_def
           split: if_splits sum.splits)

lemma get_patch_accepted:
  assumes "get_patch self rng = Some (Inr (patch, info0, rng'))"
  shows "\<exists>rng0 w h c. get_patch_draw self rng0 = Inr (w, h, patch, c, rng')
           \<and> np_greater c (9 / 10) \<and> info0 = patch_info self w h"
  using assms
proof (induction self rng "Inr (patch, info0, rng') :: error + (rgb_block \<times> info \<times> nat stream)"
         rule: get_patch.raw_induct [rotated 1, consumes 1])
  case (1 get_patch self rng)
  show ?case
  proof (cases "get_patch_draw self rng")
    case (Inl e)
    with 1(2) show ?thesis by simp
  next
    case (Inr r)
    obtain w h p c rng1 where r: "r = (w, h, p, c, rng1)" by (cases r) auto
    show ?thesis
    proof (cases "np_greater c (9 / 10)")
      case True
      with 1(2) Inr r show ?thesis by auto
    next
      case False
      with 1(2) Inr r have "get_patch self rng1 = Some (Inr (patch, info0, rng'))" by simp
      then show ?thesis by (rule 1(1))
    qed
  qed
qed

lemma get_patch_reject:
  "get_patch_draw self rng = Inr (w, h, p, c, rng1) \<Longrightarrow> \<not> np_greater c (9 / 10)
   \<Longrightarrow> get_patch self rng = get_patch self rng1"
  by (subst get_patch.simps) simp

lemma get_patch_accept:
  "get_patch_draw self rng = Inr (w, h, p, c, rng1) \<Longrightarrow> np_greater c (9 / 10)
   \<Longrightarrow> get_patch self rng = Some (Inr (p, patch_info self w h, rng1))"
  by (subst get_patch.simps) simp

lemma Slide_Sampler_init_sampler8:
  "Slide_Sampler_init ''slide8.svs'' slide8 1 2 = Inr sampler8_fresh"
  by (simp add: Slide_Sampler_init_def get_level_and_downsampling_def slide8_def
        sampler8_fresh_def py_int_def)

lemma sampler8_setup:
  "add_annotation_mask (pickle_load_background_mask sampler8_fresh (half_tissue, 1, 2, 1))
     ''annotation.tif'' annotation8 = (None, sampler8)"
  by (simp add: add_annotation_mask_def pickle_load_background_mask_def sampler8_def
        sampler8_fresh_def get_level_and_downsampling_def annotation8_def)

lemma sampler8_draw_0_0:
  "get_patch_draw sampler8 (0 ## 0 ## rng) =
     Inr (0, 0, replicate 2 (replicate 2 (255, 255, 255)), Finite 0, rng)"
  by (simp add: get_patch_draw_def np_random_choice_def background_coverage_def
        level_converter_def sampler8_def sampler8_fresh_def slide8_def half_tissue_def
        blank_region_def np_true_divide_def np_sum_def np_slice2_def py_slice_def)

lemma sampler8_draw_5_2:
  "get_patch_draw sampler8 (5 ## 2 ## rng) =
     Inr (5, 2, replicate 2 (replicate 2 (255, 255, 255)), Finite 1, rng)"
  by (simp add: get_patch_draw_def np_random_choice_def background_coverage_def
        level_converter_def sampler8_def sampler8_fresh_def slide8_def half_tissue_def
        blank_region_def np_true_divide_def np_sum_def np_slice2_def py_slice_def)

lemma sampler8_get_patch:
  "get_patch sampler8 (0 ## 0 ## 5 ## 2 ## rng) =
     Some (Inr (replicate 2 (replicate 2 (255, 255, 255)), patch_info sampler8 5 2, rng))"
  by (simp add: get_patch_reject [OF sampler8_draw_0_0] get_patch_accept [OF sampler8_draw_5_2])

text \<open>
  C2. Whenever \<open>get_patch\<close> returns, the origin \<open>(w, h)\<close> in the returned record lies
  in the sampling window, and the sum of the background mask over the slice
  \<open>[i:i + s, j:j + s]\<close> at the converted origin, divided by the square of the
  footprint size \<open>s\<close>, is strictly greater than 0.9 (in particular \<open>s\<close> is not zero:
  the \<^verbatim>\<open>nan\<close> of an empty footprint is never accepted).
\<close>

theorem get_patch_coverage:
  assumes "get_patch self rng = Some (Inr (patch, info0, rng'))"
  shows "\<exists>w h bl i j bm s.
           info0 = patch_info self w h
         \<and> 0 \<le> w \<and> w < width_available self \<and> 0 \<le> h \<and> h < height_available self
         \<and> background_mask_level self = Some bl
         \<and> level_converter self h 0 bl True = Inr (UInt32 i)
         \<and> level_converter self w 0 bl True = Inr (UInt32 j)
         \<and> background_mask self = Some bm
         \<and> size_at_background_level self = Some s
         \<and> s \<noteq> 0
         \<and> np_sum (np_slice2 bm i j s) / of_int (sint ((ucast s :: 64 word) ^ 2)) > 9 / 10"
proof -
  from get_patch_accepted [OF assms] obtain rng0 w h c where
    d: "get_patch_draw self rng0 = Inr (w, h, patch, c, rng')"
    and c: "np_greater c (9 / 10)" and i: "info0 = patch_info self w h"
    by blast
  from get_patch_draw_Inr [OF d] have
    wh: "0 \<le> w" "w < width_available self" "0 \<le> h" "h < height_available self"
    and bc: "background_coverage self w h = Inr c" by blast+
  from background_coverage_Inr [OF bc] obtain bl i' j bm s where
    b: "background_mask_level self = Some bl"
       "level_converter self h 0 bl True = Inr (UInt32 i')"
       "level_converter self w 0 bl True = Inr (UInt32 j)"
       "background_mask self = Some bm"
       "size_at_background_level self = Some s"
    and ceq: "c = np_true_divide (np_sum (np_slice2 bm i' j s))
                    (of_int (sint ((ucast s :: 64 word) ^ 2)))"
    by blast
  have s0: "s \<noteq> 0"
  proof
    assume "s = 0"
    with c ceq show False by (simp add: np_sum_slice2_zero np_true_divide_def)
  qed
  then have "real_of_int (sint ((ucast s :: 64 word) ^ 2)) \<noteq> 0"
    by (simp only: of_int_eq_0_iff int64_square_zero not_False_eq_True)
  with c ceq have "np_sum (np_slice2 bm i' j s) / of_int (sint ((ucast s :: 64 word) ^ 2)) > 9 / 10"
    by (simp add: np_greater_divide)
  with i wh b s0 show ?thesis by blast
qed

theorem get_patch_coverage_witness:
  "get_patch sampler8 (0 ## 0 ## 5 ## 2 ## sconst 0) =
     Some (Inr (replicate 2 (replicate 2 (255, 255, 255)), patch_info sampler8 5 2, sconst 0))
   \<and> (\<exists>w h bl i j bm s.
           patch_info sampler8 5 2 = patch_info sampler8 w h
         \<and> 0 \<le> w \<and> w < width_available sampler8 \<and> 0 \<le> h \<and> h < height_available sampler8
         \<and> background_mask_level sampler8 = Some bl
         \<and> level_converter sampler8 h 0 bl True = Inr (UInt32 i)
         \<and> level_converter sampler8 w 0 bl True = Inr (UInt32 j)
         \<and> background_mask sampler8 = Some bm
         \<and> size_at_background_level sampler8 = Some s
         \<and> s \<noteq> 0
         \<and> np_sum (np_slice2 bm i j s) / of_int (sint ((ucast s :: 64 word) ^ 2)) > 9 / 10)"
  using get_patch_coverage [OF sampler8_get_patch [of "sconst 0"]]
        sampler8_get_patch [of "sconst 0"]
  by blast

section \<open>Properties of the normalisation step\<close>

lemma np_max_Max: "concat x \<noteq> [] \<Longrightarrow> np_max x = Inr (Max (set (concat x)))"
  by (cases "concat x") (simp_all add: np_max_def Max.set_eq_fold del: set_simps)

text \<open>
  C10. For every annotation-patch array \<open>x\<close> (at least one pixel, values between 0
  and 255), \<open>force_patch_float01\<close> returns \<open>x\<close> divided by 255 when the maximum of
  \<open>x\<close> exceeds 1, and \<open>x\<close> itself otherwise; the values of the result lie between 0
  and 1.
\<close>

theorem force_patch_float01_unit_range:
  assumes "concat x \<noteq> []"
    and "\<forall>v\<in>set (concat x). 0 \<le> v \<and> v \<le> 255"
  shows "\<exists>y. force_patch_float01 x = Inr y
           \<and> (Max (set (concat x)) > 1 \<longrightarrow> y = map (map (\<lambda>v. v / 255)) x)
           \<and> (Max (set (concat x)) \<le> 1 \<longrightarrow> y = x)
           \<and> (\<forall>v\<in>set (concat y). 0 \<le> v \<and> v \<le> 1)"
proof (cases "Max (set (concat x)) > 1")
  case True
  have "\<forall>v\<in>set (concat (map (map (\<lambda>v. v / 255)) x)). 0 \<le> v \<and> v \<le> 1"
    using assms(2) by (auto simp: map_concat [symmetric])
  with True show ?thesis
    by (simp add: force_patch_float01_def np_max_Max [OF assms(1)])
next
  case False
  have "\<forall>v\<in>set (concat x). 0 \<le> v \<and> v \<le> 1"
  proof
    fix v assume v: "v \<in> set (concat x)"
    then have "v \<le> Max (set (concat x))" by (intro Max_ge) simp_all
    with False have "v \<le> 1" by linarith
    moreover from assms(2) v have "0 \<le> v" by blast
    ultimately show "0 \<le> v \<and> v \<le> 1" by blast
  qed
  with False show ?thesis
    by (simp add: force_patch_float01_def np_max_Max [OF assms(1)])
qed

theorem force_patch_float01_unit_range_witness:
  "concat [[0, 255], [255, 0 :: real]] \<noteq> []
   \<and> Max (set (concat [[0, 255], [255, 0 :: real]])) = 255
   \<and> force_patch_float01 [[0, 255], [255, 0]] = Inr [[0, 1], [1, 0]]
   \<and> force_patch_float01 [[0, 1], [1, 1]] = Inr [[0, 1], [1, 1]]"
  using force_patch_float01_unit_range [of "[[0, 255], [255, 0]]"]
        force_patch_float01_unit_range [of "[[0, 1], [1, 1]]"]
  by (simp add: force_patch_float01_def np_max_def)

section \<open>Properties of the mask methods\<close>

text \<open>
  C7. When the annotation mask resolves to a level whose downsampling \<open>ds\<close> differs
  from the downsampling of the slide by more than \<open>0.001\<close>, \<open>add_annotation_mask\<close>
  raises \<open>InconsistentGeometry\<close>. The call leaves the sampling window
  (\<open>width_available\<close>, \<open>height_available\<close>), the resolved level and downsampling, the
  patch size, the slide and the background mask as they were; the four annotation
  attributes hold the rejected mask and its resolved level.
\<close>

theorem add_annotation_mask_inconsistent:
  assumes "get_level_and_downsampling opened (desired_downsampling self) (1 / 10) = Inr (l, ds)"
    and "\<bar>ds - downsampling self\<bar> > 1 / 1000"
  shows "\<exists>self'. add_annotation_mask self file opened = (Some InconsistentGeometry, self')
           \<and> self' = self \<lparr> annotation_mask_file := Some file, annotation_mask := Some opened,
                              annotation_mask_level := Some l,
                              annotation_mask_downsampling := Some ds \<rparr>
           \<and> width_available self' = width_available self
           \<and> height_available self' = height_available self
           \<and> level self' = level self
           \<and> downsampling self' = downsampling self
           \<and> patch_size self' = patch_size self
           \<and> desired_downsampling self' = desired_downsampling self
           \<and> wsi self' = wsi self
           \<and> wsi_file self' = wsi_file self
           \<and> background_mask self' = background_mask self
           \<and> background_mask_level self' = background_mask_level self
           \<and> background_mask_downsampling self' = background_mask_downsampling self
           \<and> size_at_background_level self' = size_at_background_level self"
  using assms by (simp add: add_annotation_mask_def Let_def)

theorem add_annotation_mask_inconsistent_witness:
  "get_level_and_downsampling coarse8 (desired_downsampling sampler8) (1 / 10) = Inr (0, 21 / 20)
   \<and> \<bar>21 / 20 - downsampling sampler8\<bar> > 1 / 1000
   \<and> fst (add_annotation_mask sampler8 ''coarse.tif'' coarse8) = Some InconsistentGeometry
   \<and> width_available (snd (add_annotation_mask sampler8 ''coarse.tif'' coarse8)) = 6
   \<and> annotation_mask (snd (add_annotation_mask sampler8 ''coarse.tif'' coarse8)) = Some coarse8"
  using add_annotation_mask_inconsistent [of coarse8 sampler8 0 "21 / 20" "''coarse.tif''"]
  by (simp add: get_level_and_downsampling_def coarse8_def sampler8_def sampler8_fresh_def)

text \<open>
  C4, as stated, fails: with the default arguments on a slide whose factors are 1 and 2,
  the method fails in the level resolver, with \<open>LevelNotFound\<close> and not with an
  unbound name, and assigns nothing.
\<close>

theorem generate_background_mask_counterexample:
  "Slide_Sampler_generate_background_mask sampler8_fresh 32 (1 / 10) 10 =
     (Some (LevelNotFound [1, 2]), sampler8_fresh)"
  by (simp add: Slide_Sampler_generate_background_mask_def get_level_and_downsampling_def
        sampler8_fresh_def slide8_def)

text \<open>
  C4, amended. The method \<open>generate_background_mask\<close> always fails, and never assigns
  \<open>background_mask\<close> or \<open>size_at_background_level\<close>. When the level resolver
  succeeds, the method assigns \<open>background_mask_level\<close> and
  \<open>background_mask_downsampling\<close> and then fails with the unbound name \<open>mask\<close>; when
  the resolver fails, the method fails with the resolver's error and the session is
  unchanged.
\<close>

theorem generate_background_mask_fails:
  "fst (Slide_Sampler_generate_background_mask self d t r) \<noteq> None
   \<and> background_mask (snd (Slide_Sampler_generate_background_mask self d t r)) = background_mask self
   \<and> size_at_background_level (snd (Slide_Sampler_generate_background_mask self d t r))
        = size_at_background_level self
   \<and> (\<forall>l ds. get_level_and_downsampling (wsi self) d t = Inr (l, ds) \<longrightarrow>
         Slide_Sampler_generate_background_mask self d t r =
           (Some (NameError ''mask''),
            self \<lparr> background_mask_level := Some l, background_mask_downsampling := Some ds \<rparr>))
   \<and> (\<forall>e. get_level_and_downsampling (wsi self) d t = Inl e \<longrightarrow>
         Slide_Sampler_generate_background_mask self d t r = (Some e, self))"
  by (auto simp: Slide_Sampler_generate_background_mask_def split: sum.splits)

theorem generate_background_mask_fails_witness:
  "get_level_and_downsampling (wsi sampler8_fresh) 2 (1 / 10) = Inr (1, 2)
   \<and> Slide_Sampler_generate_background_mask sampler8_fresh 2 (1 / 10) 10 =
       (Some (NameError ''mask''),
        sampler8_fresh \<lparr> background_mask_level := Some 1, background_mask_downsampling := Some 2 \<rparr>)
   \<and> background_mask (snd (Slide_Sampler_generate_background_mask sampler8_fresh 2 (1 / 10) 10)) = None"
  using generate_background_mask_fails [of sampler8_fresh 2 "1 / 10" 10]
  by (simp add: get_level_and_downsampling_def sampler8_fresh_def slide8_def)

section \<open>Properties of the classed rejection sampler\<close>

lemma dict_get_patch_info:
  "dict_get (patch_info self w h) ''w'' = Inr (PyInt w)"
  "dict_get (patch_info self w h) ''h'' = Inr (PyInt h)"
  by (simp_all add: dict_get_def patch_info_def)

lemma dict_set_class:
  "dict_set (patch_info self w h) ''class'' v = patch_info self w h @ [(''class'', v)]"
  by (simp add: patch_info_def)


lemma np_less_not_greater: "np_less f (1 / 10) \<Longrightarrow> \<not> np_greater f (9 / 10)"
  by (cases f) simp_all

lemma classify_patch_info:
  "classify self patch_class (patch_info self w h) =
     (case annotation_fraction self w h of
        Inl e \<Rightarrow> Inl e
      | Inr f \<Rightarrow>
          if np_greater f (9 / 10) \<and> (patch_class = None \<or> patch_class = Some 1)
          then Inr (patch_info self w h @ [(''class'', PyInt 1)], True)
          else if np_less f (1 / 10) \<and> (patch_class = None \<or> patch_class = Some 0)
          then Inr (patch_info self w h @ [(''class'', PyInt 0)], True)
          else Inr (patch_info self w h, False))"
proof (cases "annotation_fraction self w h")
  case (Inl e)
  then show ?thesis by (simp add: classify_def dict_get_patch_info)
next
  case (Inr f)
  show ?thesis
  proof (cases "np_less f (1 / 10)")
    case True
    then have "\<not> np_greater f (9 / 10)" by (rule np_less_not_greater)
    with True Inr show ?thesis
      by (simp add: classify_def dict_get_patch_info dict_set_class)
  next
    case False
    with Inr show ?thesis
      by (simp add: classify_def dict_get_patch_info dict_set_class)
  qed
qed

lemma get_classed_patch_accepted:
  assumes "get_classed_patch self patch_class rng = Some (Inr (patch, info1, rng'))"
  shows "\<exists>rng0 info0. get_patch self rng0 = Some (Inr (patch, info0, rng'))
           \<and> classify self patch_class info0 = Inr (info1, True)"
  using assms
proof (induction self patch_class rng
         "Inr (patch, info1, rng') :: error + (rgb_block \<times> info \<times> nat stream)"
         rule: get_classed_patch.raw_induct [rotated 1, consumes 1])
  case (1 get_classed_patch self patch_class rng)
  from 1(2) obtain r where g: "get_patch self rng = Some r"
    by (cases "get_patch self rng") simp_all
  from 1(2) g obtain p info0 rng1 where r: "r = Inr (p, info0, rng1)"
    by (cases r) auto
  from 1(2) g r obtain i d where c: "classify self patch_class info0 = Inr (i, d)"
    by (cases "classify self patch_class info0") auto
  show ?case
  proof (cases d)
    case True
    with 1(2) g r c show ?thesis by auto
  next
    case False
    with 1(2) g r c have "get_classed_patch self patch_class rng1 = Some (Inr (patch, info1, rng'))"
      by simp
    then show ?thesis by (rule 1(1))
  qed
qed

lemma get_classed_patch_unfold:
  "get_patch self rng = Some (Inr (p, info0, rng1))
   \<Longrightarrow> classify self patch_class info0 = Inr (info1, d)
   \<Longrightarrow> get_classed_patch self patch_class rng =
        (if d then Some (Inr (p, info1, rng1)) else get_classed_patch self patch_class rng1)"
  by (subst get_classed_patch.simps) simp

lemma get_classed_patch_error:
  "get_patch self rng = Some (Inl e) \<Longrightarrow> get_classed_patch self patch_class rng = Some (Inl e)"
  by (subst get_classed_patch.simps) simp

lemma get_patch_error:
  "get_patch_draw self rng = Inl e \<Longrightarrow> get_patch self rng = Some (Inl e)"
  by (subst get_patch.simps) simp

lemma replicate_2: "replicate 2 x = [x, x]"
  by (simp add: numeral_2_eq_2)

lemmas sampler8_defs = sampler8_def sampler8_fresh_def slide8_def annotation8_def
  half_tissue_def blank_region_def lower_region_def

lemmas sampler_defs = get_patch_draw_def np_random_choice_def background_coverage_def
  level_converter_def np_true_divide_def np_sum_def np_slice2_def py_slice_def
  annotation_fraction_def force_patch_float01_def np_max_def Let_def replicate_2

lemma sampler8_fraction_5_2: "annotation_fraction sampler8 5 2 = Inr (Finite 0)"
  by (simp add: sampler_defs sampler8_defs)

lemma sampler8_fraction_4_4: "annotation_fraction sampler8 4 4 = Inr (Finite 1)"
  by (simp add: sampler_defs sampler8_defs)

lemma sampler8_fraction_4_0: "annotation_fraction sampler8 4 0 = Inr (Finite 0)"
  by (simp add: sampler_defs sampler8_defs)

lemma sampler8_draw_4_4:
  "get_patch_draw sampler8 (4 ## 4 ## rng) =
     Inr (4, 4, replicate 2 (replicate 2 (255, 255, 255)), Finite 1, rng)"
  by (simp add: sampler_defs sampler8_defs)

lemma sampler8_draw_4_0:
  "get_patch_draw sampler8 (4 ## 0 ## rng) =
     Inr (4, 0, replicate 2 (replicate 2 (255, 255, 255)), Finite 1, rng)"
  by (simp add: sampler_defs sampler8_defs)

lemma sampler8_classify:
  "classify sampler8 None (patch_info sampler8 5 2) =
     Inr (patch_info sampler8 5 2 @ [(''class'', PyInt 0)], True)"
  "classify sampler8 None (patch_info sampler8 4 4) =
     Inr (patch_info sampler8 4 4 @ [(''class'', PyInt 1)], True)"
  "classify sampler8 None (patch_info sampler8 4 0) =
     Inr (patch_info sampler8 4 0 @ [(''class'', PyInt 0)], True)"
  "classify sampler8 (Some 1) (patch_info sampler8 5 2) = Inr (patch_info sampler8 5 2, False)"
  "classify sampler8 (Some 1) (patch_info sampler8 4 4) =
     Inr (patch_info sampler8 4 4 @ [(''class'', PyInt 1)], True)"
  by (simp_all add: classify_patch_info sampler8_fraction_5_2 sampler8_fraction_4_4
        sampler8_fraction_4_0)

lemma sampler8_classed_None:
  "get_classed_patch sampler8 None (0 ## 0 ## 5 ## 2 ## rng) =
     Some (Inr (replicate 2 (replicate 2 (255, 255, 255)),
                patch_info sampler8 5 2 @ [(''class'', PyInt 0)], rng))"
  "get_classed_patch sampler8 None (4 ## 4 ## rng) =
     Some (Inr (replicate 2 (replicate 2 (255, 255, 255)),
                patch_info sampler8 4 4 @ [(''class'', PyInt 1)], rng))"
  "get_classed_patch sampler8 None (4 ## 0 ## rng) =
     Some (Inr (replicate 2 (replicate 2 (255, 255, 255)),
                patch_info sampler8 4 0 @ [(''class'', PyInt 0)], rng))"
  using get_classed_patch_unfold [OF sampler8_get_patch sampler8_classify(1)]
        get_classed_patch_unfold [OF get_patch_accept [OF sampler8_draw_4_4] sampler8_classify(2)]
        get_classed_patch_unfold [OF get_patch_accept [OF sampler8_draw_4_0] sampler8_classify(3)]
  by simp_all


lemma sampler8_fresh_error:
  "get_classed_patch sampler8_fresh None rng = Some (Inl (AttributeError ''background_mask_level''))"
  by (rule get_classed_patch_error, rule get_patch_error)
     (simp add: sampler_defs sampler8_defs)



section \<open>Properties of the dataset accumulator\<close>

inductive_simps sampler_calls_0: "sampler_calls self rng 0 infos rng'"
inductive_simps sampler_calls_Suc: "sampler_calls self rng (Suc n) infos rng'"

lemma sampler_calls_length: "sampler_calls self rng n infos rng' \<Longrightarrow> length infos = n"
  by (induction rule: sampler_calls.induct) simp_all

lemma get_classed_patch_keys:
  assumes "get_classed_patch self patch_class rng = Some (Inr (patch, info1, rng'))"
  shows "map fst info1 = [''w'', ''h'', ''parent'', ''level'', ''size'', ''class'']"
proof -
  from get_classed_patch_accepted [OF assms] obtain rng0 info0 where
    g: "get_patch self rng0 = Some (Inr (patch, info0, rng'))"
    and c: "classify self patch_class info0 = Inr (info1, True)"
    by blast
  from get_patch_accepted [OF g] obtain w h where i0: "info0 = patch_info self w h"
    by blast
  from c show ?thesis
    unfolding i0 classify_patch_info
    by (auto simp: patch_info_def split: sum.splits if_splits)
qed

lemma sampler_calls_keys:
  "sampler_calls self rng n infos rng' \<Longrightarrow>
   \<forall>i\<in>set infos. map fst i = [''w'', ''h'', ''parent'', ''level'', ''size'', ''class'']"
  by (induction rule: sampler_calls.induct) (auto dest: get_classed_patch_keys)

lemma frame_append_known_keys:
  "set (map fst d) \<subseteq> set (columns fr)
   \<Longrightarrow> frame_append fr d = \<lparr> columns = columns fr, rows = rows fr @ [d] \<rparr>"
  by (auto simp: frame_append_def filter_empty_conv)

lemma patchframe_loop_success:
  "patchframe_loop self n fr0 rng = Some (Inr (fr, rng')) \<longleftrightarrow>
     (\<exists>infos. sampler_calls self rng n infos rng' \<and> fr = foldl frame_append fr0 infos)"
proof (induction n arbitrary: fr0 rng)
  case 0
  then show ?case by (auto simp: sampler_calls_0)
next
  case (Suc n)
  show ?case
  proof (cases "get_classed_patch self None rng")
    case None
    then show ?thesis by (simp add: sampler_calls_Suc)
  next
    case (Some r)
    show ?thesis
    proof (cases r)
      case (Inl e)
      with Some show ?thesis by (simp add: sampler_calls_Suc)
    next
      case (Inr t)
      obtain p info1 rng1 where t: "t = (p, info1, rng1)" by (cases t) auto
      show ?thesis
        using Some Inr t Suc.IH [of "frame_append fr0 info1" rng1]
        by (auto simp: sampler_calls_Suc)
    qed
  qed
qed

lemma patchframe_loop_failure:
  "patchframe_loop self n fr0 rng = Some (Inl e) \<longleftrightarrow>
     (\<exists>k infos rng1. k < n \<and> sampler_calls self rng k infos rng1
        \<and> get_classed_patch self None rng1 = Some (Inl e))"
proof (induction n arbitrary: fr0 rng)
  case 0
  then show ?case by simp
next
  case (Suc n)
  show ?case
  proof (cases "get_classed_patch self None rng")
    case None
    have "\<not> (\<exists>k infos rng1. k < Suc n \<and> sampler_calls self rng k infos rng1
        \<and> get_classed_patch self None rng1 = Some (Inl e))"
    proof
      assume "\<exists>k infos rng1. k < Suc n \<and> sampler_calls self rng k infos rng1
        \<and> get_classed_patch self None rng1 = Some (Inl e)"
      then obtain k infos rng1 where k: "sampler_calls self rng k infos rng1"
        "get_classed_patch self None rng1 = Some (Inl e)" by blast
      then show False using None by (cases k) (auto simp: sampler_calls_0 sampler_calls_Suc)
    qed
    with None show ?thesis by simp
  next
    case (Some r)
    show ?thesis
    proof (cases r)
      case (Inl e')
      have "(\<exists>k infos rng1. k < Suc n \<and> sampler_calls self rng k infos rng1
        \<and> get_classed_patch self None rng1 = Some (Inl e)) \<longleftrightarrow> e' = e"
      proof
        assume "\<exists>k infos rng1. k < Suc n \<and> sampler_calls self rng k infos rng1
          \<and> get_classed_patch self None rng1 = Some (Inl e)"
        then obtain k infos rng1 where k: "sampler_calls self rng k infos rng1"
          "get_classed_patch self None rng1 = Some (Inl e)" by blast
        then show "e' = e" using Some Inl
          by (cases k) (auto simp: sampler_calls_0 sampler_calls_Suc)
      next
        assume "e' = e"
        with Some Inl have "0 < Suc n \<and> sampler_calls self rng 0 [] rng
          \<and> get_classed_patch self None rng = Some (Inl e)"
          by (simp add: sampler_calls.none)
        then show "\<exists>k infos rng1. k < Suc n \<and> sampler_calls self rng k infos rng1
          \<and> get_classed_patch self None rng1 = Some (Inl e)" by blast
      qed
      with Some Inl show ?thesis by simp
    next
      case (Inr t)
      obtain p info1 rng1 where t: "t = (p, info1, rng1)" by (cases t) auto
      have "(\<exists>k infos rng2. k < Suc n \<and> sampler_calls self rng k infos rng2
                \<and> get_classed_patch self None rng2 = Some (Inl e))
          \<longleftrightarrow> (\<exists>k infos rng2. k < n \<and> sampler_calls self rng1 k infos rng2
                \<and> get_classed_patch self None rng2 = Some (Inl e))"
      proof
        assume "\<exists>k infos rng2. k < Suc n \<and> sampler_calls self rng k infos rng2
                \<and> get_classed_patch self None rng2 = Some (Inl e)"
        then obtain k infos rng2 where k: "k < Suc n" "sampler_calls self rng k infos rng2"
          "get_classed_patch self None rng2 = Some (Inl e)" by blast
        show "\<exists>k infos rng2. k < n \<and> sampler_calls self rng1 k infos rng2
                \<and> get_classed_patch self None rng2 = Some (Inl e)"
        proof (cases k)
          case 0
          with k Some Inr t show ?thesis by (simp add: sampler_calls_0)
        next
          case (Suc k')
          with k Some Inr t show ?thesis by (auto simp: sampler_calls_Suc)
        qed
      next
        assume "\<exists>k infos rng2. k < n \<and> sampler_calls self rng1 k infos rng2
                \<and> get_classed_patch self None rng2 = Some (Inl e)"
        then obtain k infos rng2 where k: "k < n" "sampler_calls self rng1 k infos rng2"
          "get_classed_patch self None rng2 = Some (Inl e)" by blast
        from Some Inr t k(2) have "sampler_calls self rng (Suc k) (info1 # infos) rng2"
          by (intro sampler_calls.call) simp_all
        with k show "\<exists>k infos rng2. k < Suc n \<and> sampler_calls self rng k infos rng2
                \<and> get_classed_patch self None rng2 = Some (Inl e)"
          by (intro exI [of _ "Suc k"]) auto
      qed
      with Some Inr t Suc.IH [of "frame_append fr0 info1" rng1] show ?thesis by simp
    qed
  qed
qed

lemma foldl_frame_append:
  "\<forall>i\<in>set infos. set (map fst i) \<subseteq> set (columns fr0) \<Longrightarrow>
   foldl frame_append fr0 infos = \<lparr> columns = columns fr0, rows = rows fr0 @ infos \<rparr>"
proof (induction infos arbitrary: fr0)
  case Nil
  then show ?case by simp
next
  case (Cons i infos)
  then have "frame_append fr0 i = \<lparr> columns = columns fr0, rows = rows fr0 @ [i] \<rparr>"
    by (intro frame_append_known_keys) simp
  with Cons show ?case by simp
qed

lemma sampler8_frame:
  "get_basic_patchframe sampler8 3 (0 ## 0 ## 5 ## 2 ## 4 ## 4 ## 4 ## 0 ## rng) =
     Some (Inr (\<lparr> columns = [''w'', ''h'', ''class'', ''parent'', ''level'', ''size''],
                  rows = [patch_info sampler8 5 2 @ [(''class'', PyInt 0)],
                          patch_info sampler8 4 4 @ [(''class'', PyInt 1)],
                          patch_info sampler8 4 0 @ [(''class'', PyInt 0)]] \<rparr>, rng))"
  by (simp add: get_basic_patchframe_def numeral_3_eq_3 sampler8_classed_None
        frame_append_def patch_info_def)

lemma sampler8_fresh_frame:
  "get_basic_patchframe sampler8_fresh 3 rng =
     Some (Inl (AttributeError ''background_mask_level''))"
  by (simp add: get_basic_patchframe_def numeral_3_eq_3 sampler8_fresh_error)

text \<open>
  C9. \<open>get_basic_patchframe\<close> returns a frame exactly when \<open>N\<close> consecutive
  unconstrained calls of the classed sampler return: the frame has the columns
  \<open>w, h, class, parent, level, size\<close> and its rows are the records of these calls in
  the order of the calls, so \<open>N\<close> rows, each with these six keys. It raises \<open>e\<close>
  exactly when, after fewer than \<open>N\<close> calls that returned, the next call raises
  \<open>e\<close>; no frame is returned then.
\<close>

theorem get_basic_patchframe_table:
  "(get_basic_patchframe self N rng = Some (Inr (fr, rng')) \<longleftrightarrow>
      columns fr = [''w'', ''h'', ''class'', ''parent'', ''level'', ''size'']
      \<and> sampler_calls self rng N (rows fr) rng')
   \<and> (sampler_calls self rng N infos rng' \<longrightarrow>
        length infos = N
        \<and> (\<forall>i\<in>set infos. map fst i = [''w'', ''h'', ''parent'', ''level'', ''size'', ''class'']))
   \<and> (get_basic_patchframe self N rng = Some (Inl e) \<longleftrightarrow>
        (\<exists>k infos1 rng1. k < N \<and> sampler_calls self rng k infos1 rng1
           \<and> get_classed_patch self None rng1 = Some (Inl e)))"
proof (intro conjI impI)
  let ?cols = "[''w'', ''h'', ''class'', ''parent'', ''level'', ''size'']"
  let ?fr0 = "\<lparr> columns = ?cols, rows = [] \<rparr>"
  have fold: "foldl frame_append ?fr0 is = \<lparr> columns = ?cols, rows = is \<rparr>"
    if "sampler_calls self rng N is rng'" for "is"
  proof -
    from sampler_calls_keys [OF that]
    have "\<forall>i\<in>set is. set (map fst i) \<subseteq> set (columns ?fr0)" by auto
    from foldl_frame_append [OF this] show ?thesis by simp
  qed
  show "get_basic_patchframe self N rng = Some (Inr (fr, rng')) \<longleftrightarrow>
          columns fr = ?cols \<and> sampler_calls self rng N (rows fr) rng'"
  proof
    assume "get_basic_patchframe self N rng = Some (Inr (fr, rng'))"
    then obtain "is" where i: "sampler_calls self rng N is rng'"
      "fr = foldl frame_append ?fr0 is"
      unfolding get_basic_patchframe_def patchframe_loop_success by blast
    with fold [OF i(1)] show "columns fr = ?cols \<and> sampler_calls self rng N (rows fr) rng'"
      by simp
  next
    assume a: "columns fr = ?cols \<and> sampler_calls self rng N (rows fr) rng'"
    then have "fr = foldl frame_append ?fr0 (rows fr)"
      using fold [of "rows fr"] by simp
    with a show "get_basic_patchframe self N rng = Some (Inr (fr, rng'))"
      unfolding get_basic_patchframe_def patchframe_loop_success by blast
  qed
next
  assume "sampler_calls self rng N infos rng'"
  then show "length infos = N" by (rule sampler_calls_length)
next
  assume "sampler_calls self rng N infos rng'"
  then show "\<forall>i\<in>set infos. map fst i = [''w'', ''h'', ''parent'', ''level'', ''size'', ''class'']"
    by (rule sampler_calls_keys)
next
  show "get_basic_patchframe self N rng = Some (Inl e) \<longleftrightarrow>
        (\<exists>k infos1 rng1. k < N \<and> sampler_calls self rng k infos1 rng1
           \<and> get_classed_patch self None rng1 = Some (Inl e))"
    unfolding get_basic_patchframe_def by (rule patchframe_loop_failure)
qed

theorem get_basic_patchframe_table_witness:
  "get_basic_patchframe sampler8 3 (0 ## 0 ## 5 ## 2 ## 4 ## 4 ## 4 ## 0 ## sconst 0) =
     Some (Inr (\<lparr> columns = [''w'', ''h'', ''class'', ''parent'', ''level'', ''size''],
                  rows = [patch_info sampler8 5 2 @ [(''class'', PyInt 0)],
                          patch_info sampler8 4 4 @ [(''class'', PyInt 1)],
                          patch_info sampler8 4 0 @ [(''class'', PyInt 0)]] \<rparr>, sconst 0))
   \<and> sampler_calls sampler8 (0 ## 0 ## 5 ## 2 ## 4 ## 4 ## 4 ## 0 ## sconst 0) 3
         [patch_info sampler8 5 2 @ [(''class'', PyInt 0)],
          patch_info sampler8 4 4 @ [(''class'', PyInt 1)],
          patch_info sampler8 4 0 @ [(''class'', PyInt 0)]] (sconst 0)
   \<and> get_basic_patchframe sampler8_fresh 3 (sconst 0) =
         Some (Inl (AttributeError ''background_mask_level''))
   \<and> sampler_calls sampler8_fresh (sconst 0) 0 [] (sconst 0)
   \<and> get_classed_patch sampler8_fresh None (sconst 0) =
         Some (Inl (AttributeError ''background_mask_level''))"
  using get_basic_patchframe_table [of sampler8 3
          "0 ## 0 ## 5 ## 2 ## 4 ## 4 ## 4 ## 0 ## sconst 0"
          "\<lparr> columns = [''w'', ''h'', ''class'', ''parent'', ''level'', ''size''],
             rows = [patch_info sampler8 5 2 @ [(''class'', PyInt 0)],
                     patch_info sampler8 4 4 @ [(''class'', PyInt 1)],
                     patch_info sampler8 4 0 @ [(''class'', PyInt 0)]] \<rparr>" "sconst 0"]
        sampler8_frame [of "sconst 0"] sampler8_fresh_frame [of "sconst 0"]
        sampler8_fresh_error [of "sconst 0"]
  by (simp add: sampler_calls.none)

end
